theory Spec2Isabelle
  imports Main "HOL-Library.Word"
begin

unbundle bit_operations_syntax

section \<open>Basic types of package ip\<close>

text \<open>
  Go's \<open>uint16\<close>, \<open>uint32\<close> and \<open>uint64\<close> are words of that width. The named integer
  types of packet.go (\<open>DataPhase\<close>, \<open>PacketType\<close>, \<open>FailReason\<close>, \<open>ProtocolVersion\<close>) are all
  \<open>uint32\<close>; \<open>ptp.OperationCode\<close> and \<open>ptp.TransactionID\<close> are 16 and 32 bits wide.
\<close>

type_synonym byte = "8 word"
type_synonym uint16 = "16 word"
type_synonym uint32 = "32 word"
type_synonym uint64 = "64 word"

type_synonym DataPhase = uint32
type_synonym PacketType = uint32
type_synonym FailReason = uint32
type_synonym ProtocolVersion = uint32
type_synonym OperationCode = uint16
type_synonym TransactionID = uint32

definition HeaderSize :: nat where "HeaderSize = 8"

definition DP_NoDataOrDataIn :: DataPhase where "DP_NoDataOrDataIn = 0x00000001"
definition DP_DataOut :: DataPhase where "DP_DataOut = 0x00000002"
definition DP_Unknown :: DataPhase where "DP_Unknown = 0x00000003"

definition FR_FailRejectedInitiator :: FailReason where "FR_FailRejectedInitiator = 0x00000001"
definition FR_FailBusy :: FailReason where "FR_FailBusy = 0x00000002"
definition FR_FailUnspecified :: FailReason where "FR_FailUnspecified = 0x00000003"

definition PKT_Invalid :: PacketType where "PKT_Invalid = 0x00000000"
definition PKT_InitCommandRequest :: PacketType where "PKT_InitCommandRequest = 0x00000001"
definition PKT_InitCommandAck :: PacketType where "PKT_InitCommandAck = 0x00000002"
definition PKT_InitEventRequest :: PacketType where "PKT_InitEventRequest = 0x00000003"
definition PKT_InitEventAck :: PacketType where "PKT_InitEventAck = 0x00000004"
definition PKT_InitFail :: PacketType where "PKT_InitFail = 0x00000005"
definition PKT_OperationRequest :: PacketType where "PKT_OperationRequest = 0x00000006"
definition PKT_OperationResponse :: PacketType where "PKT_OperationResponse = 0x00000007"
definition PKT_Event :: PacketType where "PKT_Event = 0x00000008"
definition PKT_StartData :: PacketType where "PKT_StartData = 0x00000009"
definition PKT_Data :: PacketType where "PKT_Data = 0x0000000A"
definition PKT_Cancel :: PacketType where "PKT_Cancel = 0x0000000B"
definition PKT_EndData :: PacketType where "PKT_EndData = 0x0000000C"
definition PKT_ProbeRequest :: PacketType where "PKT_ProbeRequest = 0x0000000D"
definition PKT_ProbeResponse :: PacketType where "PKT_ProbeResponse = 0x0000000E"

definition PV_VersionOnePointZero :: ProtocolVersion where
  "PV_VersionOnePointZero = 0x00010000"

section \<open>Fuji packet-type folding (mockresponder_fuji_test.go)\<close>

text \<open>
  \<^verbatim>\<open>func constructPacketTypeWithDataPhase(code ptp.OperationCode, dp DataPhase) uint32 {
      return uint32(code)<<16 | uint32(dp)
  }\<close>
  In Go the shift binds tighter than the bitwise or.
\<close>

definition constructPacketTypeWithDataPhase :: "OperationCode \<Rightarrow> DataPhase \<Rightarrow> uint32" where
  "constructPacketTypeWithDataPhase code dp = push_bit 16 (ucast code :: uint32) OR dp"

definition constructPacketType :: "OperationCode \<Rightarrow> uint32" where
  "constructPacketType code = constructPacketTypeWithDataPhase code DP_NoDataOrDataIn"

section \<open>Transaction identifiers\<close>

text \<open>
  Modelled from the spec: \<open>Client.incrementTransactionId\<close> is declared in ip.go, which is not
  among the sources; only its test \<open>TestClient_incrementTransactionId\<close> is. Section 3 of the
  specification gives the rule "wraps from 0xFFFFFFFE -> 1", and the test pins the three points
  \<open>0 \<mapsto> 1\<close>, \<open>1 \<mapsto> 2\<close> and \<open>0xFFFFFFFE \<mapsto> 1\<close> (a single call). The function returns the new
  value, which is also the client's new \<open>transactionId\<close>.
\<close>

definition incrementTransactionId :: "TransactionID \<Rightarrow> TransactionID" where
  "incrementTransactionId t = (if t = 0xFFFFFFFE then 1 else t + 1)"

section \<open>Errors and formatting\<close>

text \<open>
  A Go \<open>error\<close> built by \<open>errors.New\<close> or \<open>fmt.Errorf\<close> is identified with its message; a
  value of interface type \<open>error\<close> that may be \<open>nil\<close> is an \<open>error option\<close>.
\<close>

type_synonym error = string

definition hexchar :: "nat \<Rightarrow> char" where
  "hexchar d = ''0123456789abcdef'' ! (d mod 16)"

function hexdigits :: "nat \<Rightarrow> string" where
  "hexdigits n = (if n < 16 then [hexchar n] else hexdigits (n div 16) @ [hexchar (n mod 16)])"
  by pat_completeness auto
termination
  by (relation "measure id") auto

declare hexdigits.simps [simp del]

text \<open>The value of a hexadecimal digit, to read a formatted number back.\<close>

definition hexval :: "char \<Rightarrow> nat" where
  "hexval c = length (takeWhile (\<lambda>x. x \<noteq> c) ''0123456789abcdef'')"

text \<open>The verb \<open>%#x\<close> of package fmt on an unsigned integer: \<open>0x\<close> and the lower-case
  hexadecimal digits without leading zeros.\<close>

definition fmt_hex :: "uint32 \<Rightarrow> string" where
  "fmt_hex w = ''0x'' @ hexdigits (unat w)"

text \<open>\<^verbatim>\<open>UnknownPacketType = errors.New("unknown packet type %#x")\<close>, used as the format of
  \<^verbatim>\<open>fmt.Errorf(UnknownPacketType.Error(), pt)\<close>.\<close>

definition UnknownPacketType :: "PacketType \<Rightarrow> error" where
  "UnknownPacketType pt = ''unknown packet type '' @ fmt_hex pt"

section \<open>Packets (packet.go)\<close>

text \<open>\<open>uuid.UUID\<close> is \<open>[16]byte\<close>.\<close>

datatype UUID = UUID byte byte byte byte byte byte byte byte byte byte byte byte byte byte byte byte

definition uuid_Nil :: UUID where
  "uuid_Nil = UUID 0 0 0 0 0 0 0 0 0 0 0 0 0 0 0 0"

text \<open>
  A Go string that goes on the wire is held as its sequence of UTF-16 code units; the
  transcoding between Go's UTF-8 and UTF-16 is not part of the model.
\<close>

type_synonym gostring = "uint16 list"

text \<open>
  \<open>ptp.OperationRequest\<close> and \<open>ptp.OperationResponse\<close> are declared in package ptp, outside the
  sources. Their fields are taken from the uses in vendor.go (\<open>OperationCode\<close>, \<open>Parameter1\<close> to
  \<open>Parameter5\<close>) and from section 4.2 of the specification.
\<close>

record OperationRequest =
  OperationCode :: OperationCode
  TransactionID :: TransactionID
  Parameter1 :: uint32
  Parameter2 :: uint32
  Parameter3 :: uint32
  Parameter4 :: uint32
  Parameter5 :: uint32

datatype OperationResponse =
  OperationResponse (ResponseCode: uint16) (ResponseTransactionID: TransactionID)
    (ResponseParameters: "uint32 \<times> uint32 \<times> uint32 \<times> uint32 \<times> uint32")

text \<open>
  The packet structs of packet.go, one constructor each, fields in declaration order.
  \<open>ptp.Event\<close>, embedded in \<open>GenericEventPacket\<close>, is declared outside the sources and has no
  layout in the specification: the model does not interpret its fields and keeps them as the
  bytes of the frame body, and no property below speaks of reading an event back. The
  \<open>DataPayload\<close> of \<open>DataPacket\<close> (an \<open>interface{}\<close>) and of \<open>EndDataPacket\<close> are byte slices.
\<close>

datatype packet =
    GenericInitCommandRequestPacket UUID gostring ProtocolVersion
  | InitCommandAckPacket uint32 UUID gostring uint32
  | GenericInitEventRequestPacket uint32
  | InitEventAckPacket
  | InitFailPacket FailReason
  | OperationRequestPacket DataPhase OperationRequest
  | OperationResponsePacket OperationResponse
  | GenericEventPacket "byte list"
  | StartDataPacket TransactionID uint64
  | DataPacket TransactionID "byte list"
  | EndDataPacket TransactionID "byte list"
  | CancelPacket TransactionID
  | ProbeRequestPacket
  | ProbeResponsePacket

fun PacketType :: "packet \<Rightarrow> PacketType" where
  "PacketType (GenericInitCommandRequestPacket _ _ _) = PKT_InitCommandRequest"
| "PacketType (InitCommandAckPacket _ _ _ _) = PKT_InitCommandAck"
| "PacketType (GenericInitEventRequestPacket _) = PKT_InitEventRequest"
| "PacketType InitEventAckPacket = PKT_InitEventAck"
| "PacketType (InitFailPacket _) = PKT_InitFail"
| "PacketType (OperationRequestPacket _ _) = PKT_OperationRequest"
| "PacketType (OperationResponsePacket _) = PKT_OperationResponse"
| "PacketType (GenericEventPacket _) = PKT_Event"
| "PacketType (StartDataPacket _ _) = PKT_StartData"
| "PacketType (DataPacket _ _) = PKT_Data"
| "PacketType (EndDataPacket _ _) = PKT_EndData"
| "PacketType (CancelPacket _) = PKT_Cancel"
| "PacketType ProbeRequestPacket = PKT_ProbeRequest"
| "PacketType ProbeResponsePacket = PKT_ProbeResponse"

text \<open>The interface \<open>PacketOut\<close>: the structs with a \<open>Payload\<close> method.\<close>

fun isPacketOut :: "packet \<Rightarrow> bool" where
  "isPacketOut (GenericInitCommandRequestPacket _ _ _) = True"
| "isPacketOut (GenericInitEventRequestPacket _) = True"
| "isPacketOut (OperationRequestPacket _ _) = True"
| "isPacketOut (StartDataPacket _ _) = True"
| "isPacketOut (DataPacket _ _) = True"
| "isPacketOut (EndDataPacket _ _) = True"
| "isPacketOut (CancelPacket _) = True"
| "isPacketOut ProbeRequestPacket = True"
| "isPacketOut ProbeResponsePacket = True"
| "isPacketOut _ = False"

text \<open>The interface \<open>PacketIn\<close>: the structs with a \<open>TotalFixedFieldSize\<close> method.\<close>

fun isPacketIn :: "packet \<Rightarrow> bool" where
  "isPacketIn (GenericInitCommandRequestPacket _ _ _) = False"
| "isPacketIn (GenericInitEventRequestPacket _) = False"
| "isPacketIn (OperationRequestPacket _ _) = False"
| "isPacketIn _ = True"

text \<open>The verb \<open>%T\<close> of package fmt on a packet held in an interface.\<close>

fun typeName :: "packet \<Rightarrow> string" where
  "typeName (GenericInitCommandRequestPacket _ _ _) = ''*ip.GenericInitCommandRequestPacket''"
| "typeName (InitCommandAckPacket _ _ _ _) = ''*ip.InitCommandAckPacket''"
| "typeName (GenericInitEventRequestPacket _) = ''*ip.GenericInitEventRequestPacket''"
| "typeName InitEventAckPacket = ''*ip.InitEventAckPacket''"
| "typeName (InitFailPacket _) = ''*ip.InitFailPacket''"
| "typeName (OperationRequestPacket _ _) = ''*ip.OperationRequestPacket''"
| "typeName (OperationResponsePacket _) = ''*ip.OperationResponsePacket''"
| "typeName (GenericEventPacket _) = ''*ip.GenericEventPacket''"
| "typeName (StartDataPacket _ _) = ''*ip.StartDataPacket''"
| "typeName (DataPacket _ _) = ''*ip.DataPacket''"
| "typeName (EndDataPacket _ _) = ''*ip.EndDataPacket''"
| "typeName (CancelPacket _) = ''*ip.CancelPacket''"
| "typeName ProbeRequestPacket = ''*ip.ProbeRequestPacket''"
| "typeName ProbeResponsePacket = ''*ip.ProbeResponsePacket''"

definition typeNameOf :: "packet option \<Rightarrow> string" where
  "typeNameOf res = (case res of None \<Rightarrow> ''<nil>'' | Some p \<Rightarrow> typeName p)"

definition zeroOperationRequest :: OperationRequest where
  "zeroOperationRequest =
     \<lparr>OperationCode = 0, TransactionID = 0, Parameter1 = 0, Parameter2 = 0, Parameter3 = 0,
      Parameter4 = 0, Parameter5 = 0\<rparr>"

text \<open>
  \<open>NewPacketOutFromPacketType\<close>: \<open>new(T)\<close> is the zero value of the struct; a type without a
  case leaves \<open>p\<close> nil, and the function returns the formatted \<open>UnknownPacketType\<close> error.
\<close>

definition NewPacketOutFromPacketType :: "PacketType \<Rightarrow> error + packet" where
  "NewPacketOutFromPacketType pt =
     (let p =
        (if pt = PKT_InitCommandRequest then Some (GenericInitCommandRequestPacket uuid_Nil [] 0)
         else if pt = PKT_InitEventRequest then Some (GenericInitEventRequestPacket 0)
         else if pt = PKT_OperationRequest then Some (OperationRequestPacket 0 zeroOperationRequest)
         else if pt = PKT_StartData then Some (StartDataPacket 0 0)
         else if pt = PKT_Data then Some (DataPacket 0 [])
         else if pt = PKT_Cancel then Some (CancelPacket 0)
         else if pt = PKT_EndData then Some (EndDataPacket 0 [])
         else if pt = PKT_ProbeRequest then Some ProbeRequestPacket
         else if pt = PKT_ProbeResponse then Some ProbeResponsePacket
         else None)
      in case p of Some q \<Rightarrow> Inr q | None \<Rightarrow> Inl (UnknownPacketType pt))"

definition NewPacketInFromPacketType :: "PacketType \<Rightarrow> error + packet" where
  "NewPacketInFromPacketType pt =
     (let p =
        (if pt = PKT_InitCommandAck then Some (InitCommandAckPacket 0 uuid_Nil [] 0)
         else if pt = PKT_InitEventAck then Some InitEventAckPacket
         else if pt = PKT_InitFail then Some (InitFailPacket 0)
         else if pt = PKT_OperationResponse
           then Some (OperationResponsePacket (OperationResponse 0 0 (0, 0, 0, 0, 0)))
         else if pt = PKT_Event then Some (GenericEventPacket [])
         else if pt = PKT_StartData then Some (StartDataPacket 0 0)
         else if pt = PKT_Data then Some (DataPacket 0 [])
         else if pt = PKT_Cancel then Some (CancelPacket 0)
         else if pt = PKT_EndData then Some (EndDataPacket 0 [])
         else if pt = PKT_ProbeRequest then Some ProbeRequestPacket
         else if pt = PKT_ProbeResponse then Some ProbeResponsePacket
         else None)
      in case p of Some q \<Rightarrow> Inr q | None \<Rightarrow> Inl (UnknownPacketType pt))"

text \<open>
  \<open>InitFailPacket.ReasonAsError\<close>. The constants \<open>FR_Fuji_DeviceBusy\<close> and
  \<open>FR_Fuji_InvalidParameter\<close> are declared in the Fuji part of the package, outside the
  sources: they are parameters, held in a record. The cases are tried in the order of the
  \<open>switch\<close>; \<open>errors.New\<close> never returns nil.
\<close>

record FujiFailReasons =
  FR_Fuji_DeviceBusy :: FailReason
  FR_Fuji_InvalidParameter :: FailReason

definition ReasonAsError :: "FujiFailReasons \<Rightarrow> FailReason \<Rightarrow> error option" where
  "ReasonAsError k Reason =
     (let msg =
        (if Reason = FR_FailBusy then ''busy: too many active connections''
         else if Reason = FR_FailRejectedInitiator then ''rejected: device not allowed''
         else if Reason = FR_FailUnspecified then ''reason unspecified''
         else if Reason = FR_Fuji_DeviceBusy k then
           ''fuji: invalid friendly name or camera state: allow to '' @ [CHR 0x27] @ ''change''
             @ [CHR 0x27] @ '' client or '' @ [CHR 0x27] @ ''reset'' @ [CHR 0x27] @ '' connection''
         else if Reason = FR_Fuji_InvalidParameter k then ''fuji: unknown protocol version''
         else ''unknown failure reason returned '' @ fmt_hex Reason)
      in Some msg)"

definition NewInitCommandRequestPacket :: "UUID \<Rightarrow> gostring \<Rightarrow> packet" where
  "NewInitCommandRequestPacket guid friendlyName =
     GenericInitCommandRequestPacket guid friendlyName PV_VersionOnePointZero"

definition NewInitEventRequestPacket :: "uint32 \<Rightarrow> packet" where
  "NewInitEventRequestPacket connNum = GenericInitEventRequestPacket connNum"

section \<open>The client and its vendor extensions (vendor.go)\<close>

text \<open>
  The structs \<open>Client\<close>, \<open>Initiator\<close> and \<open>Responder\<close> are declared in ip.go, outside the
  sources; their fields are the ones that vendor.go and ip_test.go read and write. A
  \<open>net.Conn\<close> is reduced to what the handshake does to it: it can be closed, and
  \<open>configureTcpConn\<close> (section 4.3 of the specification: "sockets are configured with TCP
  keepalive enabled") switches keep-alive on. A nil connection is \<open>None\<close>.
\<close>

record Conn =
  connClosed :: bool
  connKeepAlive :: bool

datatype Initiator = Initiator UUID gostring

record Responder =
  Vendor :: uint16
  IpAddress :: string
  CommandDataPort :: uint16
  EventPort :: uint16
  StreamerPort :: uint16
  GUID :: UUID
  FriendlyName :: gostring
  ProtocolVersion :: uint32

text \<open>
  Of the function pointers of \<open>VendorExtensions\<close> the two packet constructors are kept; a
  nil \<open>InitEventRequestPacket\<close> is \<open>None\<close>. The other hooks take the client itself and are
  applied by the caller.
\<close>

record VendorExtensions =
  newCmdDataInitPacket :: "UUID \<Rightarrow> gostring \<Rightarrow> packet"
  newEventInitPacket :: "uint32 \<Rightarrow> packet option"

record Client =
  commandDataConn :: "Conn option"
  eventConn :: "Conn option"
  streamConn :: "Conn option"
  connectionNumber :: uint32
  transactionId :: TransactionID
  initiator :: Initiator
  responder :: Responder
  vendorExtensions :: VendorExtensions

datatype connectionType = cmdDataConnection | eventConnection | streamConnection

text \<open>What a function does to the outside: the packets it hands to a connection and the
  lines it writes to the client's log, in order.\<close>

datatype effect =
    SendPacketToCmdDataConn packet
  | SendPacketToEventConn packet
  | LogLine string

text \<open>
  \<open>loadVendorExtensions\<close>: the generic hooks, replaced for a Fuji responder. The vendor
  constant \<open>ptp.VE_FujiPhotoFilmCoLtd\<close> and the Fuji constructors are declared outside the
  sources and are parameters.
\<close>

definition loadVendorExtensions :: "uint16 \<Rightarrow> VendorExtensions \<Rightarrow> Client \<Rightarrow> Client" where
  "loadVendorExtensions VE_FujiPhotoFilmCoLtd fuji c =
     (let generic = \<lparr>newCmdDataInitPacket = NewInitCommandRequestPacket,
                     newEventInitPacket = (\<lambda>connNum. Some (NewInitEventRequestPacket connNum))\<rparr>
      in c\<lparr>vendorExtensions :=
            (if Vendor (responder c) = VE_FujiPhotoFilmCoLtd
             then generic\<lparr>newCmdDataInitPacket := newCmdDataInitPacket fuji,
                          newEventInitPacket := newEventInitPacket fuji\<rparr>
             else generic)\<rparr>)"

text \<open>
  Modelled from the spec: \<open>Client.configureTcpConn\<close> (ip.go, not among the sources), section
  4.3: the socket of the given connection gets TCP keep-alive enabled.
\<close>

definition configureTcpConn :: "connectionType \<Rightarrow> Client \<Rightarrow> Client" where
  "configureTcpConn t c =
     (let ka = map_option (\<lambda>conn. conn\<lparr>connKeepAlive := True\<rparr>)
      in case t of
           cmdDataConnection \<Rightarrow> c\<lparr>commandDataConn := ka (commandDataConn c)\<rparr>
         | eventConnection \<Rightarrow> c\<lparr>eventConn := ka (eventConn c)\<rparr>
         | streamConnection \<Rightarrow> c\<lparr>streamConn := ka (streamConn c)\<rparr>)"

definition Close :: "Conn option \<Rightarrow> Conn option" where
  "Close conn = map_option (\<lambda>x. x\<lparr>connClosed := True\<rparr>) conn"

text \<open>
  Modelled from the spec: the client methods \<open>newCmdDataInitPacket\<close> and
  \<open>newEventInitPacket\<close> (ip.go, not among the sources) build the init packets from the
  installed hooks, whose signatures in \<open>VendorExtensions\<close> and section 4.6 give the
  arguments: the initiator's GUID and friendly name, and the connection number.
\<close>

definition Client_newCmdDataInitPacket :: "Client \<Rightarrow> packet" where
  "Client_newCmdDataInitPacket c =
     (case initiator c of Initiator guid name \<Rightarrow> newCmdDataInitPacket (vendorExtensions c) guid name)"

definition Client_newEventInitPacket :: "Client \<Rightarrow> packet option" where
  "Client_newEventInitPacket c = newEventInitPacket (vendorExtensions c) (connectionNumber c)"

text \<open>
  What the network answers during one handshake: the result of \<open>RetryDialer\<close> (a connection or
  an error), of sending the init packet, and of waiting for the reply (a packet, possibly nil,
  and an error, possibly nil).
\<close>

record HandshakeIO =
  dialResult :: "error + Conn"
  sendResult :: "error option"
  waitResult :: "packet option \<times> error option"

text \<open>
  \<open>GenericInitCommandDataConn\<close>. The result is the client after the call, the effects in
  order, and the returned error. When the dialer fails, the nil connection it returns is
  stored and the error is returned.
\<close>

definition GenericInitCommandDataConn ::
    "FujiFailReasons \<Rightarrow> HandshakeIO \<Rightarrow> Client \<Rightarrow> Client \<times> effect list \<times> error option" where
  "GenericInitCommandDataConn k io c =
     (case dialResult io of
        Inl err \<Rightarrow> (c\<lparr>commandDataConn := None\<rparr>, [], Some err)
      | Inr conn \<Rightarrow>
          (let c1 = configureTcpConn cmdDataConnection (c\<lparr>commandDataConn := Some conn\<rparr>);
               sent = [SendPacketToCmdDataConn (Client_newCmdDataInitPacket c1)]
           in case sendResult io of
                Some err \<Rightarrow> (c1, sent, Some err)
              | None \<Rightarrow>
                  (case waitResult io of
                     (res, Some err) \<Rightarrow> (c1, sent, Some err)
                   | (res, None) \<Rightarrow>
                       (let closing = (\<lambda>err.
                              (c1\<lparr>commandDataConn := Close (commandDataConn c1)\<rparr>,
                               sent @ [LogLine ''Closing Command/Data connection!''], err))
                        in case res of
                             Some (InitFailPacket Reason) \<Rightarrow> closing (ReasonAsError k Reason)
                           | Some (InitCommandAckPacket cn guid name pv) \<Rightarrow>
                               (c1\<lparr>connectionNumber := cn,
                                   responder := (responder c1)\<lparr>GUID := guid, FriendlyName := name,
                                                               ProtocolVersion := pv\<rparr>\<rparr>,
                                sent, None)
                           | _ \<Rightarrow> closing (Some (''unexpected packet received '' @ typeNameOf res))))))"

text \<open>
  \<open>GenericInitEventConn\<close>. A nil init packet from the vendor hook ends the function with
  success before anything is sent; the acknowledgement is the one path that calls
  \<open>incrementTransactionId\<close>.
\<close>

definition GenericInitEventConn ::
    "FujiFailReasons \<Rightarrow> HandshakeIO \<Rightarrow> Client \<Rightarrow> Client \<times> effect list \<times> error option" where
  "GenericInitEventConn k io c =
     (case dialResult io of
        Inl err \<Rightarrow> (c\<lparr>eventConn := None\<rparr>, [], Some err)
      | Inr conn \<Rightarrow>
          (let c1 = configureTcpConn eventConnection (c\<lparr>eventConn := Some conn\<rparr>)
           in case Client_newEventInitPacket c1 of
                None \<Rightarrow> (c1, [LogLine ''No further event channel init required.''], None)
              | Some ierp \<Rightarrow>
                  (let sent = [SendPacketToEventConn ierp]
                   in case sendResult io of
                        Some err \<Rightarrow> (c1, sent, Some err)
                      | None \<Rightarrow>
                          (case waitResult io of
                             (res, Some err) \<Rightarrow> (c1, sent, Some err)
                           | (res, None) \<Rightarrow>
                               (let closing = (\<lambda>err.
                                      (c1\<lparr>eventConn := Close (eventConn c1)\<rparr>,
                                       sent @ [LogLine ''Closing Event connection!''], err))
                                in case res of
                                     Some (InitFailPacket Reason) \<Rightarrow>
                                       closing (ReasonAsError k Reason)
                                   | Some InitEventAckPacket \<Rightarrow>
                                       (c1\<lparr>transactionId :=
                                             incrementTransactionId (transactionId c1)\<rparr>,
                                        sent, None)
                                   | _ \<Rightarrow>
                                       closing (Some (''unexpected packet received ''
                                                        @ typeNameOf res)))))))"

text \<open>
  \<open>GenericInitStreamerConn\<close>: the streamer connection is dialled and configured; nothing is
  sent.
\<close>

definition GenericInitStreamerConn ::
    "HandshakeIO \<Rightarrow> Client \<Rightarrow> Client \<times> effect list \<times> error option" where
  "GenericInitStreamerConn io c =
     (case dialResult io of
        Inl err \<Rightarrow> (c\<lparr>streamConn := None\<rparr>, [], Some err)
      | Inr conn \<Rightarrow> (configureTcpConn streamConnection (c\<lparr>streamConn := Some conn\<rparr>), [], None))"

text \<open>
  \<open>GenericGetDeviceInfo\<close>. The request built by \<open>ptp.GetDeviceInfo()\<close>, declared outside the
  sources, is a parameter. The function assigns to no field of the client; the result is
  the client, the effects, and the returned packet and error. The dial result of the
  \<open>HandshakeIO\<close> is not used.
\<close>

definition GenericGetDeviceInfo ::
    "OperationRequest \<Rightarrow> HandshakeIO \<Rightarrow> Client
       \<Rightarrow> Client \<times> effect list \<times> packet option \<times> error option" where
  "GenericGetDeviceInfo getDeviceInfo io c =
     (let sent = [SendPacketToCmdDataConn (OperationRequestPacket DP_NoDataOrDataIn getDeviceInfo)]
      in case sendResult io of
           Some err \<Rightarrow> (c, sent, None, Some err)
         | None \<Rightarrow>
             (case waitResult io of
                (res, Some err) \<Rightarrow> (c, sent, None, Some err)
              | (res, None) \<Rightarrow>
                  (case res of
                     Some (OperationResponsePacket r) \<Rightarrow>
                       (c, sent, Some (OperationResponsePacket r), None)
                   | _ \<Rightarrow> (c, sent, None,
                            Some (''unexpected packet received '' @ typeNameOf res)))))"

text \<open>
  \<open>GenericOperationRequestRaw\<close>. A Go index expression out of range panics; the model makes
  the panic a result of its own. \<open>raw\<close> is declared without a value, so it is the nil slice,
  of length 0, when \<open>raw[0]\<close> is assigned.
\<close>

datatype 'a outcome = Return 'a | Panic string

definition index :: "'a list \<Rightarrow> nat \<Rightarrow> 'a outcome" where
  "index xs i = (if i < length xs then Return (xs ! i)
                 else Panic ''runtime error: index out of range'')"

definition assignIndex :: "'a list \<Rightarrow> nat \<Rightarrow> 'a \<Rightarrow> 'a list outcome" where
  "assignIndex xs i v = (if i < length xs then Return (xs[i := v])
                         else Panic ''runtime error: index out of range'')"

definition andThen :: "'a outcome \<Rightarrow> ('a \<Rightarrow> 'b outcome) \<Rightarrow> 'b outcome" where
  "andThen m f = (case m of Return x \<Rightarrow> f x | Panic s \<Rightarrow> Panic s)"

record RawIO =
  rawSendResult :: "error option"
  readRawResult :: "byte list \<times> error option"

definition GenericOperationRequestRaw ::
    "RawIO \<Rightarrow> OperationCode \<Rightarrow> uint32 list \<Rightarrow> (byte list list \<times> error option) outcome" where
  "GenericOperationRequestRaw io code params =
     (let or0 = zeroOperationRequest\<lparr>OperationCode := code\<rparr> in
      andThen (if length params \<ge> 1
               then andThen (index params 0) (\<lambda>v. Return (or0\<lparr>Parameter1 := v\<rparr>))
               else Return or0) (\<lambda>or1.
      andThen (if length params \<ge> 2
               then andThen (index params 1) (\<lambda>v. Return (or1\<lparr>Parameter2 := v\<rparr>))
               else Return or1) (\<lambda>or2.
      andThen (if length params \<ge> 3
               then andThen (index params 2) (\<lambda>v. Return (or2\<lparr>Parameter3 := v\<rparr>))
               else Return or2) (\<lambda>or3.
      andThen (if length params \<ge> 4
               then andThen (index params 3) (\<lambda>v. Return (or3\<lparr>Parameter4 := v\<rparr>))
               else Return or3) (\<lambda>or4.
      andThen (if length params = 5
               then andThen (index params 5) (\<lambda>v. Return (or4\<lparr>Parameter5 := v\<rparr>))
               else Return or4) (\<lambda>or5.
      case rawSendResult io of
        Some err \<Rightarrow> Return ([], Some err)
      | None \<Rightarrow>
          (case readRawResult io of (bytes, err) \<Rightarrow>
             andThen (assignIndex [] 0 bytes) (\<lambda>raw. Return (raw, err)))))))))"

section \<open>The wire codec\<close>

text \<open>
  Little-endian integers, as \<open>binary.LittleEndian\<close> writes and reads them. The readers index
  their argument as the Go functions do; every caller checks the length first.
\<close>

definition PutUint16 :: "uint16 \<Rightarrow> byte list" where
  "PutUint16 v = [ucast v, ucast (drop_bit 8 v)]"

definition PutUint32 :: "uint32 \<Rightarrow> byte list" where
  "PutUint32 v = [ucast v, ucast (drop_bit 8 v), ucast (drop_bit 16 v), ucast (drop_bit 24 v)]"

definition PutUint64 :: "uint64 \<Rightarrow> byte list" where
  "PutUint64 v =
     [ucast v, ucast (drop_bit 8 v), ucast (drop_bit 16 v), ucast (drop_bit 24 v),
      ucast (drop_bit 32 v), ucast (drop_bit 40 v), ucast (drop_bit 48 v), ucast (drop_bit 56 v)]"

definition Uint16 :: "byte list \<Rightarrow> uint16" where
  "Uint16 b = ucast (b ! 0) OR push_bit 8 (ucast (b ! 1))"

definition Uint32 :: "byte list \<Rightarrow> uint32" where
  "Uint32 b = ucast (b ! 0) OR push_bit 8 (ucast (b ! 1)) OR push_bit 16 (ucast (b ! 2))
                OR push_bit 24 (ucast (b ! 3))"

definition Uint64 :: "byte list \<Rightarrow> uint64" where
  "Uint64 b = ucast (b ! 0) OR push_bit 8 (ucast (b ! 1)) OR push_bit 16 (ucast (b ! 2))
                OR push_bit 24 (ucast (b ! 3)) OR push_bit 32 (ucast (b ! 4))
                OR push_bit 40 (ucast (b ! 5)) OR push_bit 48 (ucast (b ! 6))
                OR push_bit 56 (ucast (b ! 7))"

fun uuid_bytes :: "UUID \<Rightarrow> byte list" where
  "uuid_bytes (UUID b0 b1 b2 b3 b4 b5 b6 b7 b8 b9 b10 b11 b12 b13 b14 b15) =
     [b0, b1, b2, b3, b4, b5, b6, b7, b8, b9, b10, b11, b12, b13, b14, b15]"

definition uuid_of_bytes :: "byte list \<Rightarrow> UUID" where
  "uuid_of_bytes b =
     UUID (b ! 0) (b ! 1) (b ! 2) (b ! 3) (b ! 4) (b ! 5) (b ! 6) (b ! 7)
          (b ! 8) (b ! 9) (b ! 10) (b ! 11) (b ! 12) (b ! 13) (b ! 14) (b ! 15)"

text \<open>
  Modelled from the spec: the marshalling of package \<open>ip/internal\<close> (\<open>MarshalLittleEndian\<close> and
  its inverse) and \<open>Client.sendPacket\<close> and \<open>Client.readResponse\<close> of ip.go are not among the
  sources; their tests \<open>TestClient_sendPacket\<close>, \<open>TestClient_readResponse\<close> and
  \<open>TestClient_readRawResponse\<close> are. Sections 3, 4.1 and 4.2 of the specification: a frame
  is an 8-byte header \<open>{Length, PacketType}\<close>, \<open>Length\<close> counting the whole frame, followed by
  the fields in declaration order, all integers little-endian; a string is its UTF-16LE code
  units followed by a single 16-bit \<open>0x0000\<close>; a byte slice has no length prefix and takes
  the rest of the frame.
\<close>

definition encodeString :: "gostring \<Rightarrow> byte list" where
  "encodeString s = concat (map PutUint16 s) @ [0, 0]"

fun MarshalLittleEndian :: "packet \<Rightarrow> byte list" where
  "MarshalLittleEndian (GenericInitCommandRequestPacket guid name pv) =
     uuid_bytes guid @ encodeString name @ PutUint32 pv"
| "MarshalLittleEndian (InitCommandAckPacket cn guid name pv) =
     PutUint32 cn @ uuid_bytes guid @ encodeString name @ PutUint32 pv"
| "MarshalLittleEndian (GenericInitEventRequestPacket cn) = PutUint32 cn"
| "MarshalLittleEndian InitEventAckPacket = []"
| "MarshalLittleEndian (InitFailPacket reason) = PutUint32 reason"
| "MarshalLittleEndian (OperationRequestPacket dp req) =
     PutUint32 dp @ PutUint16 (OperationCode req) @ PutUint32 (TransactionID req)
       @ PutUint32 (Parameter1 req) @ PutUint32 (Parameter2 req) @ PutUint32 (Parameter3 req)
       @ PutUint32 (Parameter4 req) @ PutUint32 (Parameter5 req)"
| "MarshalLittleEndian (OperationResponsePacket (OperationResponse rc tid (p1, p2, p3, p4, p5))) =
     PutUint16 rc @ PutUint32 tid
       @ PutUint32 p1 @ PutUint32 p2 @ PutUint32 p3 @ PutUint32 p4 @ PutUint32 p5"
| "MarshalLittleEndian (GenericEventPacket body) = body"
| "MarshalLittleEndian (StartDataPacket tid tdl) = PutUint32 tid @ PutUint64 tdl"
| "MarshalLittleEndian (DataPacket tid payload) = PutUint32 tid @ payload"
| "MarshalLittleEndian (EndDataPacket tid payload) = PutUint32 tid @ payload"
| "MarshalLittleEndian (CancelPacket tid) = PutUint32 tid"
| "MarshalLittleEndian ProbeRequestPacket = []"
| "MarshalLittleEndian ProbeResponsePacket = []"

text \<open>The \<open>Payload\<close> methods of packet.go all return \<open>internal.MarshalLittleEndian\<close> of the
  packet.\<close>

definition Payload :: "packet \<Rightarrow> byte list" where
  "Payload p = MarshalLittleEndian p"

text \<open>
  Modelled from the spec: \<open>Client.sendPacket\<close> (ip.go, not among the sources) writes the
  frame: the header, then the payload. The \<open>Length\<close> field is a \<open>uint32\<close>.
\<close>

definition sendPacket :: "packet \<Rightarrow> byte list" where
  "sendPacket p =
     (let pl = Payload p
      in PutUint32 (of_nat (HeaderSize + length pl)) @ PutUint32 (PacketType p) @ pl)"

text \<open>The error kinds of the decoder (sections 4.1 and 7 of the specification).\<close>

datatype decodeError =
    ShortFrame
  | UnknownPacketTypeError PacketType
  | MalformedFrame
  | MalformedString
  | TransportError

text \<open>
  Modelled from the spec: the string reader of the unmarshalling (package \<open>ip/internal\<close>, not
  among the sources), section 4.1: little-endian 16-bit units up to the first \<open>0x0000\<close>. The
  result is the string and the bytes after the terminator, \<open>None\<close> when no terminator is
  found.
\<close>

fun decodeString :: "byte list \<Rightarrow> (gostring \<times> byte list) option" where
  "decodeString (a # b # rest) =
     (let u = Uint16 [a, b]
      in if u = 0 then Some ([], rest)
         else (case decodeString rest of
                 None \<Rightarrow> None
               | Some (s, r) \<Rightarrow> Some (u # s, r)))"
| "decodeString _ = None"

text \<open>
  Modelled from the spec: the unmarshalling of package \<open>ip/internal\<close> (not among the
  sources), section 4.1. It fills the packet made by the constructor from the frame body: the
  fixed fields and the string in declaration order, the rest into the trailing byte slice
  where the struct has one; what the struct does not take is the excess.
\<close>

fun UnmarshalLittleEndian :: "packet \<Rightarrow> byte list \<Rightarrow> decodeError + packet \<times> byte list" where
  "UnmarshalLittleEndian (GenericInitCommandRequestPacket _ _ _) b =
     (if length b < 16 then Inl MalformedFrame
      else case decodeString (drop 16 b) of
             None \<Rightarrow> Inl MalformedString
           | Some (name, r) \<Rightarrow>
               if length r < 4 then Inl MalformedFrame
               else Inr (GenericInitCommandRequestPacket (uuid_of_bytes b) name (Uint32 r), drop 4 r))"
| "UnmarshalLittleEndian (InitCommandAckPacket _ _ _ _) b =
     (if length b < 20 then Inl MalformedFrame
      else case decodeString (drop 20 b) of
             None \<Rightarrow> Inl MalformedString
           | Some (name, r) \<Rightarrow>
               if length r < 4 then Inl MalformedFrame
               else Inr (InitCommandAckPacket (Uint32 b) (uuid_of_bytes (drop 4 b)) name (Uint32 r),
                         drop 4 r))"
| "UnmarshalLittleEndian (GenericInitEventRequestPacket _) b =
     (if length b < 4 then Inl MalformedFrame
      else Inr (GenericInitEventRequestPacket (Uint32 b), drop 4 b))"
| "UnmarshalLittleEndian InitEventAckPacket b = Inr (InitEventAckPacket, b)"
| "UnmarshalLittleEndian (InitFailPacket _) b =
     (if length b < 4 then Inl MalformedFrame
      else Inr (InitFailPacket (Uint32 b), drop 4 b))"
| "UnmarshalLittleEndian (OperationRequestPacket _ _) b =
     (if length b < 30 then Inl MalformedFrame
      else Inr (OperationRequestPacket (Uint32 b)
                  \<lparr>OperationCode = Uint16 (drop 4 b), TransactionID = Uint32 (drop 6 b),
                   Parameter1 = Uint32 (drop 10 b), Parameter2 = Uint32 (drop 14 b),
                   Parameter3 = Uint32 (drop 18 b), Parameter4 = Uint32 (drop 22 b),
                   Parameter5 = Uint32 (drop 26 b)\<rparr>,
                drop 30 b))"
| "UnmarshalLittleEndian (OperationResponsePacket _) b =
     (if length b < 26 then Inl MalformedFrame
      else Inr (OperationResponsePacket
                  (OperationResponse (Uint16 b) (Uint32 (drop 2 b))
                     (Uint32 (drop 6 b), Uint32 (drop 10 b), Uint32 (drop 14 b),
                      Uint32 (drop 18 b), Uint32 (drop 22 b))),
                drop 26 b))"
| "UnmarshalLittleEndian (GenericEventPacket _) b = Inr (GenericEventPacket b, [])"
| "UnmarshalLittleEndian (StartDataPacket _ _) b =
     (if length b < 12 then Inl MalformedFrame
      else Inr (StartDataPacket (Uint32 b) (Uint64 (drop 4 b)), drop 12 b))"
| "UnmarshalLittleEndian (DataPacket _ _) b =
     (if length b < 4 then Inl MalformedFrame
      else Inr (DataPacket (Uint32 b) (drop 4 b), []))"
| "UnmarshalLittleEndian (EndDataPacket _ _) b =
     (if length b < 4 then Inl MalformedFrame
      else Inr (EndDataPacket (Uint32 b) (drop 4 b), []))"
| "UnmarshalLittleEndian (CancelPacket _) b =
     (if length b < 4 then Inl MalformedFrame
      else Inr (CancelPacket (Uint32 b), drop 4 b))"
| "UnmarshalLittleEndian ProbeRequestPacket b = Inr (ProbeRequestPacket, b)"
| "UnmarshalLittleEndian ProbeResponsePacket b = Inr (ProbeResponsePacket, b)"

text \<open>
  Modelled from the spec: \<open>Client.readResponse\<close> (ip.go, not among the sources), section
  4.1, on the bytes that the reader holds, with no packet given by the caller
  (the \<open>nil\<close> second argument of the tests): read the 8-byte header, check \<open>Length \<ge> 8\<close>,
  read \<open>Length - 8\<close> more bytes, let \<open>NewPacketInFromPacketType\<close> make the packet and fill
  it. The result is the packet, the excess bytes of the frame, and what is left in the
  reader.
\<close>

definition readResponse :: "byte list \<Rightarrow> decodeError + packet \<times> byte list \<times> byte list" where
  "readResponse r =
     (if length r < HeaderSize then Inl ShortFrame
      else
        (let len = unat (Uint32 r); pt = Uint32 (drop 4 r)
         in if len < HeaderSize then Inl ShortFrame
            else if length r < len then Inl TransportError
            else case NewPacketInFromPacketType pt of
                   Inl _ \<Rightarrow> Inl (UnknownPacketTypeError pt)
                 | Inr p \<Rightarrow>
                     (case UnmarshalLittleEndian p (take (len - HeaderSize) (drop HeaderSize r)) of
                        Inl e \<Rightarrow> Inl e
                      | Inr (q, excess) \<Rightarrow> Inr (q, excess, drop len r))))"


section \<open>Values of the tests\<close>

text \<open>
  The client of \<open>TestNewClient\<close> (generic vendor, address 192.168.0.1, port 26831, initiator
  GUID cf2407bc-4b4c-4525-9622-afb30db356df, the default friendly name), the acknowledgement
  of \<open>TestClient_readResponse\<close> (GUID 7c946ae4-6d6a-4589-90ed-d059f8cc426b, the name
  "remote" with a circumflex on the o, in UTF-16), a network that dials, sends and delivers one given reply, and sample values for
  the constants that are declared outside the sources: the Fuji vendor tag, the two Fuji
  failure reasons, and a Fuji event hook that returns nil (section 4.7 of the specification:
  the Fuji event init is a no-op).
\<close>

definition utf16_of_ascii :: "string \<Rightarrow> gostring" where
  "utf16_of_ascii s = map (\<lambda>c. of_nat (of_char c)) s"

definition fujiExtensions :: VendorExtensions where
  "fujiExtensions =
     \<lparr>newCmdDataInitPacket = NewInitCommandRequestPacket, newEventInitPacket = (\<lambda>connNum. None)\<rparr>"

definition testClient :: Client where
  "testClient =
     loadVendorExtensions 0x000E fujiExtensions
       \<lparr>commandDataConn = None, eventConn = None, streamConn = None,
        connectionNumber = 0, transactionId = 0,
        initiator = Initiator
          (UUID 0xcf 0x24 0x07 0xbc 0x4b 0x4c 0x45 0x25 0x96 0x22 0xaf 0xb3 0x0d 0xb3 0x56 0xdf)
          (utf16_of_ascii ''Golang PTP/IP client''),
        responder = \<lparr>Vendor = 0, IpAddress = ''192.168.0.1'', CommandDataPort = 26831,
                     EventPort = 26831, StreamerPort = 26831, GUID = uuid_Nil, FriendlyName = [],
                     ProtocolVersion = 0\<rparr>,
        vendorExtensions = fujiExtensions\<rparr>"

definition fujiClient :: Client where
  "fujiClient =
     loadVendorExtensions 0x000E fujiExtensions
       (testClient\<lparr>responder := (responder testClient)\<lparr>Vendor := 0x000E\<rparr>\<rparr>)"

definition remote :: gostring where
  "remote = [0x72, 0x65, 0x6d, 0xf4, 0x74, 0x65]"

definition guidR :: UUID where
  "guidR = UUID 0x7c 0x94 0x6a 0xe4 0x6d 0x6a 0x45 0x89 0x90 0xed 0xd0 0x59 0xf8 0xcc 0x42 0x6b"

definition fujiReasons :: FujiFailReasons where
  "fujiReasons = \<lparr>FR_Fuji_DeviceBusy = 0x2019, FR_Fuji_InvalidParameter = 0x201D\<rparr>"

definition okIO :: "packet \<Rightarrow> HandshakeIO" where
  "okIO reply = \<lparr>dialResult = Inr \<lparr>connClosed = False, connKeepAlive = False\<rparr>,
                   sendResult = None, waitResult = (Some reply, None)\<rparr>"

section \<open>Properties\<close>

lemmas PKT_defs =
  PKT_Invalid_def PKT_InitCommandRequest_def PKT_InitCommandAck_def PKT_InitEventRequest_def
  PKT_InitEventAck_def PKT_InitFail_def PKT_OperationRequest_def PKT_OperationResponse_def
  PKT_Event_def PKT_StartData_def PKT_Data_def PKT_Cancel_def PKT_EndData_def
  PKT_ProbeRequest_def PKT_ProbeResponse_def

subsection \<open>Fuji packet-type folding\<close>

text \<open>
  Claim C2. For every 16-bit operation code \<open>oc\<close> and every data phase \<open>dp\<close> among
  \<open>0x0001\<close>, \<open>0x0002\<close> and \<open>0x0003\<close>, the word built by
  \<open>constructPacketTypeWithDataPhase\<close> is \<open>(oc << 16) | dp\<close>; its upper 16 bits are \<open>oc\<close>
  and its lower 16 bits are \<open>dp\<close>.
\<close>

theorem constructPacketTypeWithDataPhase_halves:
  assumes "dp \<in> {0x0001, 0x0002, 0x0003}"
  shows "constructPacketTypeWithDataPhase oc dp = push_bit 16 (ucast oc) OR dp \<and>
         (ucast (drop_bit 16 (constructPacketTypeWithDataPhase oc dp)) :: uint16) = oc \<and>
         ucast (ucast (constructPacketTypeWithDataPhase oc dp) :: uint16) = dp"
proof -
  have tb: "take_bit 16 dp = dp"
    using assms by auto
  have hi: "(ucast (drop_bit 16 (push_bit 16 (ucast oc :: uint32) OR take_bit 16 dp)) :: uint16) = oc"
    by (rule bit_word_eqI) (auto simp add: bit_simps)
  have lo: "ucast (ucast (push_bit 16 (ucast oc :: uint32) OR take_bit 16 dp) :: uint16)
              = take_bit 16 dp"
    by (rule bit_word_eqI) (auto simp add: bit_simps)
  show ?thesis
    unfolding constructPacketTypeWithDataPhase_def using hi lo by (simp add: tb)
qed

theorem constructPacketTypeWithDataPhase_halves_witness:
  "(0x0002 :: uint32) \<in> {0x0001, 0x0002, 0x0003} \<and>
   constructPacketTypeWithDataPhase 0x1016 0x0002 = 0x10160002 \<and>
   (ucast (drop_bit 16 (constructPacketTypeWithDataPhase 0x1016 0x0002)) :: uint16) = 0x1016 \<and>
   ucast (ucast (constructPacketTypeWithDataPhase 0x1016 0x0002) :: uint16) = (0x0002 :: uint32)"
  using constructPacketTypeWithDataPhase_halves [of "0x0002" "0x1016"] by simp

subsection \<open>Transaction identifiers\<close>

lemma incrementTransactionId_range:
  "1 \<le> t \<Longrightarrow> t \<le> 0xFFFFFFFE \<Longrightarrow>
     1 \<le> incrementTransactionId t \<and> incrementTransactionId t \<le> 0xFFFFFFFE"
  unfolding incrementTransactionId_def
  by (auto simp: word_le_nat_alt unat_word_ariths) unat_arith

lemma incrementTransactionId_reachable:
  "1 \<le> (incrementTransactionId ^^ Suc n) 0 \<and> (incrementTransactionId ^^ Suc n) 0 \<le> 0xFFFFFFFE"
proof (induction n)
  case 0
  show ?case by (simp add: incrementTransactionId_def)
next
  case (Suc n)
  then show ?case
    using incrementTransactionId_range [of "(incrementTransactionId ^^ Suc n) 0"] by simp
qed

text \<open>
  Claim C3. The increment adds exactly one below \<open>0xFFFFFFFE\<close> (without wrapping), takes
  \<open>0xFFFFFFFE\<close> to \<open>1\<close>, and no number of increments, one or more, of the initial value
  \<open>0\<close> gives \<open>0\<close> again.
\<close>

theorem incrementTransactionId_rule:
  "(t < 0xFFFFFFFE \<longrightarrow> unat (incrementTransactionId t) = unat t + 1) \<and>
   incrementTransactionId 0xFFFFFFFE = 1 \<and>
   (incrementTransactionId ^^ Suc n) 0 \<noteq> 0"
proof (intro conjI impI)
  assume "t < 0xFFFFFFFE"
  then show "unat (incrementTransactionId t) = unat t + 1"
    unfolding incrementTransactionId_def
    by (auto simp: word_less_nat_alt unat_word_ariths)
next
  show "incrementTransactionId 0xFFFFFFFE = 1"
    by (simp add: incrementTransactionId_def)
next
  have "1 \<le> (incrementTransactionId ^^ Suc n) 0"
    using incrementTransactionId_reachable [of n] by blast
  then show "(incrementTransactionId ^^ Suc n) 0 \<noteq> 0"
    by auto
qed

theorem incrementTransactionId_rule_witness:
  "(1::uint32) < 0xFFFFFFFE \<and> unat (incrementTransactionId 1) = unat (1::uint32) + 1 \<and>
   incrementTransactionId 0xFFFFFFFE = 1 \<and> (incrementTransactionId ^^ Suc 2) 0 \<noteq> 0"
  using incrementTransactionId_rule [of 1 2] by simp

text \<open>
  Claim C4, as stated: from \<open>0xFFFFFFFE\<close> the first increment gives \<open>0xFFFFFFFF\<close>. It does
  not: \<open>TestClient_incrementTransactionId\<close> sets the identifier to \<open>0xFFFFFFFE\<close>, calls the
  increment once and wants \<open>1\<close>.
\<close>

theorem incrementTransactionId_wrap_counterexample:
  "incrementTransactionId 0xFFFFFFFE \<noteq> 0xFFFFFFFF"
  by (simp add: incrementTransactionId_def)

text \<open>
  Claim C4, amended. From \<open>0xFFFFFFFE\<close> the first increment gives \<open>0x00000001\<close>, skipping
  both \<open>0xFFFFFFFF\<close> and \<open>0\<close>, and the second gives \<open>0x00000002\<close>.
\<close>

theorem incrementTransactionId_wrap:
  "incrementTransactionId 0xFFFFFFFE = 0x00000001 \<and>
   incrementTransactionId (incrementTransactionId 0xFFFFFFFE) = 0x00000002"
  by (simp add: incrementTransactionId_def)

subsection \<open>The packet registries\<close>

text \<open>
  Claim C9. \<open>NewPacketInFromPacketType\<close> returns a packet of the matching kind, one that
  implements \<open>PacketIn\<close>, exactly for the eleven inbound packet types, and the
  \<open>UnknownPacketType\<close> error for every other value, among them the three outbound-only types;
  \<open>NewPacketOutFromPacketType\<close> returns a \<open>PacketOut\<close> of the matching kind exactly for the
  nine types of its \<open>switch\<close> and the same error otherwise.
\<close>

theorem NewPacketFromPacketType_registry:
  "(pt \<in> {PKT_InitCommandAck, PKT_InitEventAck, PKT_InitFail, PKT_OperationResponse, PKT_Event,
           PKT_StartData, PKT_Data, PKT_Cancel, PKT_EndData, PKT_ProbeRequest, PKT_ProbeResponse}
      \<longrightarrow> (\<exists>p. NewPacketInFromPacketType pt = Inr p \<and> PacketType p = pt \<and> isPacketIn p)) \<and>
   (pt \<notin> {PKT_InitCommandAck, PKT_InitEventAck, PKT_InitFail, PKT_OperationResponse, PKT_Event,
           PKT_StartData, PKT_Data, PKT_Cancel, PKT_EndData, PKT_ProbeRequest, PKT_ProbeResponse}
      \<longrightarrow> NewPacketInFromPacketType pt = Inl (UnknownPacketType pt)) \<and>
   NewPacketInFromPacketType PKT_InitCommandRequest = Inl (UnknownPacketType PKT_InitCommandRequest) \<and>
   NewPacketInFromPacketType PKT_InitEventRequest = Inl (UnknownPacketType PKT_InitEventRequest) \<and>
   NewPacketInFromPacketType PKT_OperationRequest = Inl (UnknownPacketType PKT_OperationRequest) \<and>
   (pt \<in> {PKT_InitCommandRequest, PKT_InitEventRequest, PKT_OperationRequest, PKT_StartData,
           PKT_Data, PKT_Cancel, PKT_EndData, PKT_ProbeRequest, PKT_ProbeResponse}
      \<longrightarrow> (\<exists>p. NewPacketOutFromPacketType pt = Inr p \<and> PacketType p = pt \<and> isPacketOut p)) \<and>
   (pt \<notin> {PKT_InitCommandRequest, PKT_InitEventRequest, PKT_OperationRequest, PKT_StartData,
           PKT_Data, PKT_Cancel, PKT_EndData, PKT_ProbeRequest, PKT_ProbeResponse}
      \<longrightarrow> NewPacketOutFromPacketType pt = Inl (UnknownPacketType pt))"
  unfolding NewPacketInFromPacketType_def NewPacketOutFromPacketType_def PKT_defs
  by (simp add: PKT_defs)

theorem NewPacketFromPacketType_registry_witness:
  "NewPacketInFromPacketType PKT_InitFail = Inr (InitFailPacket 0) \<and>
   NewPacketInFromPacketType 0x0F = Inl (UnknownPacketType 0x0F) \<and>
   NewPacketOutFromPacketType PKT_InitFail = Inl (UnknownPacketType PKT_InitFail) \<and>
   NewPacketOutFromPacketType PKT_Cancel = Inr (CancelPacket 0)"
  using NewPacketFromPacketType_registry [of PKT_InitFail]
    NewPacketFromPacketType_registry [of "0x0F"] NewPacketFromPacketType_registry [of PKT_Cancel]
  by (simp add: PKT_defs NewPacketInFromPacketType_def NewPacketOutFromPacketType_def)

subsection \<open>Failure reasons\<close>

lemma hexval_hexchar: 
  assumes "d < 16" shows "hexval (hexchar d) = d"
proof -
  from assms consider "d = 0" | "d = 1" | "d = 2" | "d = 3" | "d = 4" | "d = 5" | "d = 6" | "d = 7"
    | "d = 8" | "d = 9" | "d = 10" | "d = 11" | "d = 12" | "d = 13" | "d = 14" | "d = 15"
    by atomize_elim arith
  then show ?thesis
    by cases (simp_all add: hexchar_def hexval_def)
qed

lemma unhex_hexdigits: "foldl (\<lambda>a c. 16 * a + hexval c) 0 (hexdigits n) = n"
proof (induction n rule: hexdigits.induct)
  case (1 n)
  show ?case
  proof (cases "n < 16")
    case True
    then show ?thesis by (simp add: hexval_hexchar hexdigits.simps [of n])
  next
    case False
    then have "hexdigits n = hexdigits (n div 16) @ [hexchar (n mod 16)]"
      by (simp add: hexdigits.simps [of n])
    then show ?thesis
      using 1 False by (simp add: hexval_hexchar)
  qed
qed

lemma fmt_hex_inj: "fmt_hex a = fmt_hex b \<Longrightarrow> a = b"
proof -
  assume "fmt_hex a = fmt_hex b"
  then have "hexdigits (unat a) = hexdigits (unat b)" by (simp add: fmt_hex_def)
  then have "unat a = unat b" by (metis unhex_hexdigits)
  then show ?thesis by (simp add: word_unat_eq_iff)
qed

lemmas FR_defs = FR_FailRejectedInitiator_def FR_FailBusy_def FR_FailUnspecified_def

text \<open>
  Claim C6. \<open>ReasonAsError\<close> returns a non-nil error for every reason. Reasons 1, 2 and 3
  have their fixed messages, the two Fuji reasons their own messages, and every other reason
  the message "unknown failure reason returned" followed by the reason in hexadecimal, which
  no other reason shares. The constants of a Go \<open>switch\<close> are pairwise distinct, which is the
  hypothesis on the two Fuji constants.
\<close>

theorem ReasonAsError_messages:
  assumes "distinct [FR_FailBusy, FR_FailRejectedInitiator, FR_FailUnspecified,
                     FR_Fuji_DeviceBusy k, FR_Fuji_InvalidParameter k]"
  shows "ReasonAsError k r \<noteq> None \<and>
         ReasonAsError k 1 = Some ''rejected: device not allowed'' \<and>
         ReasonAsError k 2 = Some ''busy: too many active connections'' \<and>
         ReasonAsError k 3 = Some ''reason unspecified'' \<and>
         ReasonAsError k (FR_Fuji_DeviceBusy k) =
           Some (''fuji: invalid friendly name or camera state: allow to '' @ [CHR 0x27]
                 @ ''change'' @ [CHR 0x27] @ '' client or '' @ [CHR 0x27] @ ''reset''
                 @ [CHR 0x27] @ '' connection'') \<and>
         ReasonAsError k (FR_Fuji_InvalidParameter k) = Some ''fuji: unknown protocol version'' \<and>
         (r \<notin> {1, 2, 3, FR_Fuji_DeviceBusy k, FR_Fuji_InvalidParameter k} \<longrightarrow>
            ReasonAsError k r = Some (''unknown failure reason returned '' @ fmt_hex r) \<and>
            (\<forall>r'. ReasonAsError k r' = ReasonAsError k r \<longrightarrow> r' = r))"
proof -
  have d: "FR_Fuji_DeviceBusy k \<noteq> 1" "FR_Fuji_DeviceBusy k \<noteq> 2" "FR_Fuji_DeviceBusy k \<noteq> 3"
    "FR_Fuji_InvalidParameter k \<noteq> 1" "FR_Fuji_InvalidParameter k \<noteq> 2"
    "FR_Fuji_InvalidParameter k \<noteq> 3" "FR_Fuji_InvalidParameter k \<noteq> FR_Fuji_DeviceBusy k"
    using assms by (auto simp: FR_defs)
  have unl: "r' = r"
    if "ReasonAsError k r' = Some (''unknown failure reason returned '' @ fmt_hex r)" for r'
  proof -
    have "fmt_hex r' = fmt_hex r"
      using that unfolding ReasonAsError_def FR_defs Let_def fmt_hex_def
      by (simp split: if_splits)
    then show ?thesis by (rule fmt_hex_inj)
  qed
  have known: "ReasonAsError k r \<noteq> None" "ReasonAsError k 1 = Some ''rejected: device not allowed''"
    "ReasonAsError k 2 = Some ''busy: too many active connections''"
    "ReasonAsError k 3 = Some ''reason unspecified''"
    "ReasonAsError k (FR_Fuji_InvalidParameter k) = Some ''fuji: unknown protocol version''"
    using d unfolding ReasonAsError_def FR_defs Let_def by simp_all
  have busy: "ReasonAsError k (FR_Fuji_DeviceBusy k) =
           Some (''fuji: invalid friendly name or camera state: allow to '' @ [CHR 0x27]
                 @ ''change'' @ [CHR 0x27] @ '' client or '' @ [CHR 0x27] @ ''reset''
                 @ [CHR 0x27] @ '' connection'')"
    using d unfolding ReasonAsError_def FR_defs Let_def by simp
  have other: "ReasonAsError k r = Some (''unknown failure reason returned '' @ fmt_hex r)"
    if "r \<notin> {1, 2, 3, FR_Fuji_DeviceBusy k, FR_Fuji_InvalidParameter k}"
    using that unfolding ReasonAsError_def FR_defs Let_def by simp
  show ?thesis
    using known busy other unl by (intro conjI impI allI) simp_all
qed

theorem ReasonAsError_messages_witness:
  "distinct [FR_FailBusy, FR_FailRejectedInitiator, FR_FailUnspecified, 0x2019, 0x201D] \<and>
   ReasonAsError \<lparr>FR_Fuji_DeviceBusy = 0x2019, FR_Fuji_InvalidParameter = 0x201D\<rparr> 1
     = Some ''rejected: device not allowed'' \<and>
   (0x7b :: uint32) \<notin> {1, 2, 3, 0x2019, 0x201D} \<and>
   ReasonAsError \<lparr>FR_Fuji_DeviceBusy = 0x2019, FR_Fuji_InvalidParameter = 0x201D\<rparr> 0x7b
     = Some ''unknown failure reason returned 0x7b''"
  using ReasonAsError_messages
    [of "\<lparr>FR_Fuji_DeviceBusy = 0x2019, FR_Fuji_InvalidParameter = 0x201D\<rparr>" "0x7b"]
  by (simp add: FR_defs fmt_hex_def hexdigits.simps hexchar_def)

subsection \<open>The raw operation request\<close>

text \<open>
  Claim C5 asks that \<open>GenericOperationRequestRaw\<close> is total on at most five parameters and
  reads \<open>params[4]\<close>. The function does neither: with five parameters it evaluates
  \<open>params[5]\<close> and panics before anything is sent, and with fewer, once the request is sent,
  it assigns to \<open>raw[0]\<close> of a nil slice and panics.
\<close>

theorem GenericOperationRequestRaw_panics:
  "GenericOperationRequestRaw io code [1, 2, 3, 4, 5] = Panic ''runtime error: index out of range'' \<and>
   GenericOperationRequestRaw \<lparr>rawSendResult = None, readRawResult = (bytes, None)\<rparr> code []
     = Panic ''runtime error: index out of range''"
  by (simp add: GenericOperationRequestRaw_def andThen_def index_def assignIndex_def)

text \<open>The function returns only when sending fails, and then returns that error.\<close>

lemma GenericOperationRequestRaw_returns:
  "GenericOperationRequestRaw io code params = Return r \<Longrightarrow>
     length params \<noteq> 5 \<and> rawSendResult io \<noteq> None \<and> r = ([], rawSendResult io)"
  by (auto simp: GenericOperationRequestRaw_def andThen_def index_def assignIndex_def Let_def
           split: if_splits option.splits prod.splits)

subsection \<open>The handshake\<close>

lemma cfg_cmd [simp]:
  "configureTcpConn cmdDataConnection (c\<lparr>commandDataConn := Some conn\<rparr>)
     = c\<lparr>commandDataConn := Some (conn\<lparr>connKeepAlive := True\<rparr>)\<rparr>"
  by (simp add: configureTcpConn_def)

lemma cfg_evt [simp]:
  "configureTcpConn eventConnection (c\<lparr>eventConn := Some conn\<rparr>)
     = c\<lparr>eventConn := Some (conn\<lparr>connKeepAlive := True\<rparr>)\<rparr>"
  by (simp add: configureTcpConn_def)

lemmas test_defs = testClient_def fujiExtensions_def loadVendorExtensions_def okIO_def fujiReasons_def
  GenericInitCommandDataConn_def GenericInitEventConn_def Let_def Close_def
  Client_newEventInitPacket_def Client_newCmdDataInitPacket_def ReasonAsError_def FR_defs
  NewInitEventRequestPacket_def incrementTransactionId_def configureTcpConn_def

text \<open>
  Claim C7. When \<open>GenericInitCommandDataConn\<close> receives an \<open>InitCommandAckPacket\<close> it returns
  nil and the client differs from the one before the call in the dialled connection, the
  connection number and the responder's GUID, friendly name and protocol version, which are
  those of the acknowledgement. On every other path it returns an error and leaves the
  connection number and the responder unchanged; when the reply is an \<open>InitFailPacket\<close> or
  any other packet, the command/data connection is closed as well. No other function of
  vendor.go changes the connection number or the responder: \<open>GenericInitEventConn\<close>,
  \<open>GenericInitStreamerConn\<close>, \<open>GenericGetDeviceInfo\<close>, \<open>loadVendorExtensions\<close> and
  \<open>configureTcpConn\<close> return a client with both as they were
  (\<open>GenericOperationRequestRaw\<close> has no assignment to the client at all).
\<close>

theorem GenericInitCommandDataConn_ack:
  assumes "GenericInitCommandDataConn k io c = (c', fx, err)"
  shows "(dialResult io = Inr conn \<and> sendResult io = None \<and>
          waitResult io = (Some (InitCommandAckPacket cn guid name pv), None) \<longrightarrow>
            err = None \<and>
            c' = c\<lparr>commandDataConn := Some (conn\<lparr>connKeepAlive := True\<rparr>),
                   connectionNumber := cn,
                   responder := (responder c)\<lparr>GUID := guid, FriendlyName := name,
                                              ProtocolVersion := pv\<rparr>\<rparr>) \<and>
         ((\<forall>conn cn guid name pv. \<not> (dialResult io = Inr conn \<and> sendResult io = None \<and>
              waitResult io = (Some (InitCommandAckPacket cn guid name pv), None))) \<longrightarrow>
            err \<noteq> None \<and> connectionNumber c' = connectionNumber c \<and> responder c' = responder c) \<and>
         (dialResult io = Inr conn \<and> sendResult io = None \<and> waitResult io = (res, None) \<and>
          (\<forall>cn guid name pv. res \<noteq> Some (InitCommandAckPacket cn guid name pv)) \<longrightarrow>
            err \<noteq> None \<and> connectionNumber c' = connectionNumber c \<and> responder c' = responder c \<and>
            commandDataConn c' = Some (conn\<lparr>connKeepAlive := True, connClosed := True\<rparr>)) \<and>
         connectionNumber (fst (GenericInitEventConn k ioe d)) = connectionNumber d \<and>
         responder (fst (GenericInitEventConn k ioe d)) = responder d \<and>
         connectionNumber (fst (GenericInitStreamerConn ioe d)) = connectionNumber d \<and>
         responder (fst (GenericInitStreamerConn ioe d)) = responder d \<and>
         connectionNumber (fst (GenericGetDeviceInfo req ioe d)) = connectionNumber d \<and>
         responder (fst (GenericGetDeviceInfo req ioe d)) = responder d \<and>
         connectionNumber (loadVendorExtensions fujiTag fujiExt d) = connectionNumber d \<and>
         responder (loadVendorExtensions fujiTag fujiExt d) = responder d \<and>
         connectionNumber (configureTcpConn t d) = connectionNumber d \<and>
         responder (configureTcpConn t d) = responder d"
proof -
  have cfg: "connectionNumber (configureTcpConn t x) = connectionNumber x \<and>
             responder (configureTcpConn t x) = responder x" for t x
    by (cases t) (simp_all add: configureTcpConn_def)
  have evt: "connectionNumber (fst (GenericInitEventConn k ioe d)) = connectionNumber d \<and>
             responder (fst (GenericInitEventConn k ioe d)) = responder d"
    by (auto simp: GenericInitEventConn_def Let_def Client_newEventInitPacket_def cfg
             split: sum.splits option.splits prod.splits packet.splits)
  have str: "connectionNumber (fst (GenericInitStreamerConn ioe d)) = connectionNumber d \<and>
             responder (fst (GenericInitStreamerConn ioe d)) = responder d"
    by (auto simp: GenericInitStreamerConn_def cfg split: sum.splits)
  have gdi: "connectionNumber (fst (GenericGetDeviceInfo req ioe d)) = connectionNumber d \<and>
             responder (fst (GenericGetDeviceInfo req ioe d)) = responder d"
    by (auto simp: GenericGetDeviceInfo_def Let_def
             split: option.splits prod.splits packet.splits)
  have lve: "connectionNumber (loadVendorExtensions fujiTag fujiExt d) = connectionNumber d \<and>
             responder (loadVendorExtensions fujiTag fujiExt d) = responder d"
    by (simp add: loadVendorExtensions_def Let_def)
  have ack: "err = None \<and>
            c' = c\<lparr>commandDataConn := Some (conn\<lparr>connKeepAlive := True\<rparr>),
                   connectionNumber := cn,
                   responder := (responder c)\<lparr>GUID := guid, FriendlyName := name,
                                              ProtocolVersion := pv\<rparr>\<rparr>"
    if "dialResult io = Inr conn \<and> sendResult io = None \<and>
          waitResult io = (Some (InitCommandAckPacket cn guid name pv), None)"
    using that assms by (auto simp: GenericInitCommandDataConn_def Let_def)
  have other: "err \<noteq> None \<and> connectionNumber c' = connectionNumber c \<and> responder c' = responder c"
    if "\<forall>conn cn guid name pv. \<not> (dialResult io = Inr conn \<and> sendResult io = None \<and>
              waitResult io = (Some (InitCommandAckPacket cn guid name pv), None))"
    using that assms
    by (auto simp: GenericInitCommandDataConn_def Let_def ReasonAsError_def
             split: sum.splits option.splits prod.splits packet.splits) metis+
  have closed: "err \<noteq> None \<and> connectionNumber c' = connectionNumber c \<and> responder c' = responder c \<and>
            commandDataConn c' = Some (conn\<lparr>connKeepAlive := True, connClosed := True\<rparr>)"
    if "dialResult io = Inr conn \<and> sendResult io = None \<and> waitResult io = (res, None) \<and>
          (\<forall>cn guid name pv. res \<noteq> Some (InitCommandAckPacket cn guid name pv))"
    using that assms
    by (auto simp: GenericInitCommandDataConn_def Let_def ReasonAsError_def Close_def
             split: sum.splits option.splits prod.splits packet.splits)
  have first: "(dialResult io = Inr conn \<and> sendResult io = None \<and>
          waitResult io = (Some (InitCommandAckPacket cn guid name pv), None) \<longrightarrow>
            err = None \<and>
            c' = c\<lparr>commandDataConn := Some (conn\<lparr>connKeepAlive := True\<rparr>),
                   connectionNumber := cn,
                   responder := (responder c)\<lparr>GUID := guid, FriendlyName := name,
                                              ProtocolVersion := pv\<rparr>\<rparr>) \<and>
         ((\<forall>conn cn guid name pv. \<not> (dialResult io = Inr conn \<and> sendResult io = None \<and>
              waitResult io = (Some (InitCommandAckPacket cn guid name pv), None))) \<longrightarrow>
            err \<noteq> None \<and> connectionNumber c' = connectionNumber c \<and> responder c' = responder c) \<and>
         (dialResult io = Inr conn \<and> sendResult io = None \<and> waitResult io = (res, None) \<and>
          (\<forall>cn guid name pv. res \<noteq> Some (InitCommandAckPacket cn guid name pv)) \<longrightarrow>
            err \<noteq> None \<and> connectionNumber c' = connectionNumber c \<and> responder c' = responder c \<and>
            commandDataConn c' = Some (conn\<lparr>connKeepAlive := True, connClosed := True\<rparr>))"
    using ack other closed by blast
  show ?thesis
    using first evt str gdi lve cfg [of t d] by simp
qed

theorem GenericInitCommandDataConn_ack_witness:
  "snd (snd (GenericInitCommandDataConn fujiReasons (okIO (InitCommandAckPacket 1 guidR remote 0x00020005))
               testClient)) = None \<and>
   connectionNumber (fst (GenericInitCommandDataConn fujiReasons
                            (okIO (InitCommandAckPacket 1 guidR remote 0x00020005)) testClient)) = 1 \<and>
   GUID (responder (fst (GenericInitCommandDataConn fujiReasons
                            (okIO (InitCommandAckPacket 1 guidR remote 0x00020005)) testClient))) = guidR \<and>
   snd (snd (GenericInitCommandDataConn fujiReasons (okIO (InitFailPacket 1)) testClient))
     = Some ''rejected: device not allowed'' \<and>
   GUID (responder (fst (GenericInitCommandDataConn fujiReasons (okIO (InitFailPacket 1)) testClient)))
     = uuid_Nil \<and>
   commandDataConn (fst (GenericInitCommandDataConn fujiReasons (okIO (InitFailPacket 1)) testClient))
     = Some \<lparr>connClosed = True, connKeepAlive = True\<rparr> \<and>
   connectionNumber (fst (GenericInitEventConn fujiReasons (okIO InitEventAckPacket)
     (fst (GenericInitCommandDataConn fujiReasons
             (okIO (InitCommandAckPacket 1 guidR remote 0x00020005)) testClient)))) = 1 \<and>
   GUID (responder (fst (GenericInitEventConn fujiReasons (okIO InitEventAckPacket)
     (fst (GenericInitCommandDataConn fujiReasons
             (okIO (InitCommandAckPacket 1 guidR remote 0x00020005)) testClient))))) = guidR"
  using GenericInitCommandDataConn_ack
    [of fujiReasons "okIO (InitCommandAckPacket 1 guidR remote 0x00020005)" testClient
        "fst (GenericInitCommandDataConn fujiReasons
                (okIO (InitCommandAckPacket 1 guidR remote 0x00020005)) testClient)"
        "fst (snd (GenericInitCommandDataConn fujiReasons
                (okIO (InitCommandAckPacket 1 guidR remote 0x00020005)) testClient))"
        "snd (snd (GenericInitCommandDataConn fujiReasons
                (okIO (InitCommandAckPacket 1 guidR remote 0x00020005)) testClient))"
        "\<lparr>connClosed = False, connKeepAlive = False\<rparr>" 1 guidR remote "0x00020005" _
        "okIO InitEventAckPacket"
        "fst (GenericInitCommandDataConn fujiReasons
                (okIO (InitCommandAckPacket 1 guidR remote 0x00020005)) testClient)"]
    GenericInitCommandDataConn_ack
    [of fujiReasons "okIO (InitFailPacket 1)" testClient
        "fst (GenericInitCommandDataConn fujiReasons (okIO (InitFailPacket 1)) testClient)"
        "fst (snd (GenericInitCommandDataConn fujiReasons (okIO (InitFailPacket 1)) testClient))"
        "snd (snd (GenericInitCommandDataConn fujiReasons (okIO (InitFailPacket 1)) testClient))"
        "\<lparr>connClosed = False, connKeepAlive = False\<rparr>" _ _ _ _ "Some (InitFailPacket 1)"]
  by (simp add: test_defs)

text \<open>
  Claim C8. \<open>GenericInitCommandDataConn\<close> leaves the transaction identifier as it was, so it
  is still 0 after the command/data handshake of a new client. \<open>GenericInitEventConn\<close>
  increments it once when it receives the \<open>InitEventAckPacket\<close> and returns nil, and leaves
  it unchanged on every other path: from 0 it becomes 1 exactly on that path.
\<close>

theorem handshake_transactionId:
  assumes "GenericInitCommandDataConn k io1 c = (c1, fx1, err1)"
      and "GenericInitEventConn k io2 c1 = (c2, fx2, err2)"
  shows "transactionId c1 = transactionId c \<and>
         ((\<exists>conn. dialResult io2 = Inr conn) \<and>
          newEventInitPacket (vendorExtensions c1) (connectionNumber c1) \<noteq> None \<and>
          sendResult io2 = None \<and> waitResult io2 = (Some InitEventAckPacket, None) \<longrightarrow>
            err2 = None \<and> transactionId c2 = incrementTransactionId (transactionId c1)) \<and>
         (\<not> ((\<exists>conn. dialResult io2 = Inr conn) \<and>
             newEventInitPacket (vendorExtensions c1) (connectionNumber c1) \<noteq> None \<and>
             sendResult io2 = None \<and> waitResult io2 = (Some InitEventAckPacket, None)) \<longrightarrow>
            transactionId c2 = transactionId c1) \<and>
         (transactionId c = 0 \<longrightarrow>
            (transactionId c2 = 1 \<longleftrightarrow>
               (\<exists>conn. dialResult io2 = Inr conn) \<and>
               newEventInitPacket (vendorExtensions c1) (connectionNumber c1) \<noteq> None \<and>
               sendResult io2 = None \<and> waitResult io2 = (Some InitEventAckPacket, None)))"
proof -
  let ?A = "(\<exists>conn. dialResult io2 = Inr conn) \<and>
          newEventInitPacket (vendorExtensions c1) (connectionNumber c1) \<noteq> None \<and>
          sendResult io2 = None \<and> waitResult io2 = (Some InitEventAckPacket, None)"
  have cmd: "transactionId c1 = transactionId c"
    using assms(1)
    by (auto simp: GenericInitCommandDataConn_def Let_def
             split: sum.splits option.splits prod.splits packet.splits)
  have ack: "err2 = None \<and> transactionId c2 = incrementTransactionId (transactionId c1)" if ?A
    using that assms(2)
    by (auto simp: GenericInitEventConn_def Let_def Client_newEventInitPacket_def)
  have other: "transactionId c2 = transactionId c1" if "\<not> ?A"
    using that assms(2)
    by (auto simp: GenericInitEventConn_def Let_def Client_newEventInitPacket_def
             split: sum.splits option.splits prod.splits packet.splits)
  have one: "incrementTransactionId 0 = 1"
    by (simp add: incrementTransactionId_def)
  show ?thesis
    using cmd ack other one by (cases ?A) auto
qed

theorem handshake_transactionId_witness:
  "transactionId testClient = 0 \<and>
   transactionId (fst (GenericInitCommandDataConn fujiReasons
                         (okIO (InitCommandAckPacket 1 guidR remote 0x00020005)) testClient)) = 0 \<and>
   transactionId (fst (GenericInitEventConn fujiReasons (okIO InitEventAckPacket)
     (fst (GenericInitCommandDataConn fujiReasons
             (okIO (InitCommandAckPacket 1 guidR remote 0x00020005)) testClient)))) = 1 \<and>
   transactionId (fst (GenericInitEventConn fujiReasons (okIO (InitFailPacket 1))
     (fst (GenericInitCommandDataConn fujiReasons
             (okIO (InitCommandAckPacket 1 guidR remote 0x00020005)) testClient)))) = 0"
  using handshake_transactionId
    [of fujiReasons "okIO (InitCommandAckPacket 1 guidR remote 0x00020005)" testClient
        "fst (GenericInitCommandDataConn fujiReasons
                (okIO (InitCommandAckPacket 1 guidR remote 0x00020005)) testClient)"
        "fst (snd (GenericInitCommandDataConn fujiReasons
                (okIO (InitCommandAckPacket 1 guidR remote 0x00020005)) testClient))"
        "snd (snd (GenericInitCommandDataConn fujiReasons
                (okIO (InitCommandAckPacket 1 guidR remote 0x00020005)) testClient))"
        "okIO InitEventAckPacket"
        "fst (GenericInitEventConn fujiReasons (okIO InitEventAckPacket)
           (fst (GenericInitCommandDataConn fujiReasons
                   (okIO (InitCommandAckPacket 1 guidR remote 0x00020005)) testClient)))"
        "fst (snd (GenericInitEventConn fujiReasons (okIO InitEventAckPacket)
           (fst (GenericInitCommandDataConn fujiReasons
                   (okIO (InitCommandAckPacket 1 guidR remote 0x00020005)) testClient))))"
        "snd (snd (GenericInitEventConn fujiReasons (okIO InitEventAckPacket)
           (fst (GenericInitCommandDataConn fujiReasons
                   (okIO (InitCommandAckPacket 1 guidR remote 0x00020005)) testClient))))"]
    handshake_transactionId
    [of fujiReasons "okIO (InitCommandAckPacket 1 guidR remote 0x00020005)" testClient
        "fst (GenericInitCommandDataConn fujiReasons
                (okIO (InitCommandAckPacket 1 guidR remote 0x00020005)) testClient)"
        "fst (snd (GenericInitCommandDataConn fujiReasons
                (okIO (InitCommandAckPacket 1 guidR remote 0x00020005)) testClient))"
        "snd (snd (GenericInitCommandDataConn fujiReasons
                (okIO (InitCommandAckPacket 1 guidR remote 0x00020005)) testClient))"
        "okIO (InitFailPacket 1)"
        "fst (GenericInitEventConn fujiReasons (okIO (InitFailPacket 1))
           (fst (GenericInitCommandDataConn fujiReasons
                   (okIO (InitCommandAckPacket 1 guidR remote 0x00020005)) testClient)))"
        "fst (snd (GenericInitEventConn fujiReasons (okIO (InitFailPacket 1))
           (fst (GenericInitCommandDataConn fujiReasons
                   (okIO (InitCommandAckPacket 1 guidR remote 0x00020005)) testClient))))"
        "snd (snd (GenericInitEventConn fujiReasons (okIO (InitFailPacket 1))
           (fst (GenericInitCommandDataConn fujiReasons
                   (okIO (InitCommandAckPacket 1 guidR remote 0x00020005)) testClient))))"]
  by (simp add: test_defs)

text \<open>
  Claim C10. When the event connection is dialled and the vendor hook \<open>newEventInitPacket\<close>
  returns nil, \<open>GenericInitEventConn\<close> returns nil, hands no packet to the event
  connection, and the client is the one before the call with the event connection set: the
  transaction identifier is not incremented.
\<close>

theorem GenericInitEventConn_nil_init_packet:
  assumes "dialResult io = Inr conn"
      and "newEventInitPacket (vendorExtensions c) (connectionNumber c) = None"
  shows "GenericInitEventConn k io c =
           (c\<lparr>eventConn := Some (conn\<lparr>connKeepAlive := True\<rparr>)\<rparr>,
            [LogLine ''No further event channel init required.''], None) \<and>
         transactionId (fst (GenericInitEventConn k io c)) = transactionId c \<and>
         (\<forall>p. SendPacketToEventConn p \<notin> set (fst (snd (GenericInitEventConn k io c))))"
  using assms by (simp add: GenericInitEventConn_def Let_def Client_newEventInitPacket_def)

theorem GenericInitEventConn_nil_init_packet_witness:
  "dialResult (okIO InitEventAckPacket) = Inr \<lparr>connClosed = False, connKeepAlive = False\<rparr> \<and>
   newEventInitPacket (vendorExtensions fujiClient) (connectionNumber fujiClient) = None \<and>
   GenericInitEventConn fujiReasons (okIO InitEventAckPacket) fujiClient =
     (fujiClient\<lparr>eventConn := Some \<lparr>connClosed = False, connKeepAlive = True\<rparr>\<rparr>,
      [LogLine ''No further event channel init required.''], None) \<and>
   transactionId (fst (GenericInitEventConn fujiReasons (okIO InitEventAckPacket) fujiClient)) = 0"
  using GenericInitEventConn_nil_init_packet
    [of "okIO InitEventAckPacket" "\<lparr>connClosed = False, connKeepAlive = False\<rparr>" fujiClient
        fujiReasons]
  by (simp add: test_defs fujiClient_def)

subsection \<open>The wire codec\<close>

lemma Uint16_PutUint16 [simp]: "Uint16 (PutUint16 w @ r) = w"
proof (rule bit_word_eqI)
  fix n assume "n < LENGTH(16)"
  then consider "n < 8" | "8 \<le> n \<and> n < 16"
    by atomize_elim (simp, arith)
  then show "bit (Uint16 (PutUint16 w @ r)) n = bit w n"
    by cases (auto simp add: Uint16_def PutUint16_def bit_simps)
qed

lemma Uint32_PutUint32 [simp]: "Uint32 (PutUint32 w @ r) = w"
proof (rule bit_word_eqI)
  fix n assume "n < LENGTH(32)"
  then consider "n < 8" | "8 \<le> n \<and> n < 16" | "16 \<le> n \<and> n < 24" | "24 \<le> n \<and> n < 32"
    by atomize_elim (simp, arith)
  then show "bit (Uint32 (PutUint32 w @ r)) n = bit w n"
    by cases (auto simp add: Uint32_def PutUint32_def bit_simps)
qed

lemma Uint64_PutUint64 [simp]: "Uint64 (PutUint64 w @ r) = w"
proof (rule bit_word_eqI)
  fix n assume "n < LENGTH(64)"
  then consider "n < 8" | "8 \<le> n \<and> n < 16" | "16 \<le> n \<and> n < 24" | "24 \<le> n \<and> n < 32"
    | "32 \<le> n \<and> n < 40" | "40 \<le> n \<and> n < 48" | "48 \<le> n \<and> n < 56" | "56 \<le> n \<and> n < 64"
    by atomize_elim (simp, arith)
  then show "bit (Uint64 (PutUint64 w @ r)) n = bit w n"
    by cases (auto simp add: Uint64_def PutUint64_def bit_simps)
qed

lemma length_Put [simp]: "length (PutUint16 a) = 2" "length (PutUint32 b) = 4" "length (PutUint64 c) = 8"
  by (simp_all add: PutUint16_def PutUint32_def PutUint64_def)

lemma uuid_roundtrip [simp]: "uuid_of_bytes (uuid_bytes g @ r) = g"
  by (cases g) (simp add: uuid_of_bytes_def)

lemma length_uuid_bytes [simp]: "length (uuid_bytes g) = 16"
  by (cases g) simp


lemma length_encodeString [simp]: "length (encodeString s) = 2 * length s + 2"
  by (induction s) (simp_all add: encodeString_def)




lemma Uint_Put_Nil [simp]:
  "Uint16 (PutUint16 a) = a" "Uint32 (PutUint32 b) = b" "Uint64 (PutUint64 c) = c"
  using Uint16_PutUint16 [of a "[]"] Uint32_PutUint32 [of b "[]"] Uint64_PutUint64 [of c "[]"]
  by simp_all




text \<open>
  The model against the byte vectors of the tests: the frame that \<open>TestClient_sendPacket\<close>
  wants for the init command request of the initiator named "writer" with a grave accent
  on the e, and the frame of
  \<open>TestClient_readRawResponse\<close>, read back.
\<close>

lemma sendPacket_test_vector:
  "sendPacket (NewInitCommandRequestPacket
     (UUID 0xe4 0x62 0xb5 0x90 0xb5 0x16 0x47 0x4a 0x9d 0xb8 0xa4 0x65 0xb3 0x70 0xfa 0xbd)
     [0x77, 0x72, 0x69, 0x74, 0xe8, 0x72]) =
   [0x2a, 0, 0, 0, 1, 0, 0, 0,
    0xe4, 0x62, 0xb5, 0x90, 0xb5, 0x16, 0x47, 0x4a, 0x9d, 0xb8, 0xa4, 0x65, 0xb3, 0x70, 0xfa, 0xbd,
    0x77, 0, 0x72, 0, 0x69, 0, 0x74, 0, 0xe8, 0, 0x72, 0, 0, 0,
    0, 0, 1, 0]"
  by (simp add: sendPacket_def Payload_def NewInitCommandRequestPacket_def HeaderSize_def
        PV_VersionOnePointZero_def PKT_defs encodeString_def PutUint32_def PutUint16_def)

lemma readResponse_test_vector:
  "readResponse
     [0x2e, 0x0, 0x0, 0x0, 0x2, 0x0, 0x0, 0x0, 0x1, 0x0, 0x0, 0x0,
      0xd2, 0xd4, 0xfc, 0xe6, 0x11, 0x81, 0x42, 0xdd, 0xa1, 0x85, 0x5c, 0xc4, 0xc, 0xa6, 0x83, 0x21,
      0x72, 0x0, 0xe8, 0x0, 0x6d, 0x0, 0x6f, 0x0, 0x74, 0x0, 0x65, 0x0, 0x0, 0x0,
      0x5, 0x0, 0x2, 0x0] =
   Inr (InitCommandAckPacket 1
          (UUID 0xd2 0xd4 0xfc 0xe6 0x11 0x81 0x42 0xdd 0xa1 0x85 0x5c 0xc4 0x0c 0xa6 0x83 0x21)
          [0x72, 0xe8, 0x6d, 0x6f, 0x74, 0x65] 0x00020005, [], [])"
  by (simp add: readResponse_def HeaderSize_def Let_def NewPacketInFromPacketType_def PKT_defs
        Uint32_def Uint16_def uuid_of_bytes_def)






end
